theory Spec2Isabelle
  imports Complex_Main
begin

section \<open>ApnaMandi: order placement, procurement list and partner earnings\<close>

text \<open>
  A shallow embedding of \<^verbatim>\<open>server/storage.ts\<close> (class \<^verbatim>\<open>DatabaseStorage\<close>) and of the
  order and partner routes of \<^verbatim>\<open>server/routes.ts\<close>.

  Conventions of the embedding.
  \<^item> The relational store is a record of tables, each table a list of rows in insertion
    order. A \<^verbatim>\<open>select\<close> without \<^verbatim>\<open>where\<close> is the table, a \<^verbatim>\<open>where\<close> is a filter, an
    inner join is a nested iteration, \<^verbatim>\<open>const [x] = rows\<close> is the first row or
    \<^verbatim>\<open>undefined\<close> (\<open>None\<close>).
  \<^item> The table declarations (\<^verbatim>\<open>@shared/schema\<close>) are not part of the sources at hand. The
    columns are the ones the two source files read and write. Identifiers the database
    generates for orders, order items, price rows and deliveries are natural numbers
    drawn from a counter of the store; product and user identifiers are the strings
    the requests carry. Constraint violations and connection failures of the database
    are outside the model: an insert appends its row.
  \<^item> A JavaScript \<^verbatim>\<open>number\<close> is an IEEE 754 double: a finite value, an infinity or
    \<^verbatim>\<open>NaN\<close>. Sums and products are rounded to the nearest double, ties to even, as
    is the number \<^verbatim>\<open>parseFloat\<close> reads from a decimal text. The two zeros are not
    told apart: nothing the handlers do observes the sign of a zero.
  \<^item> A decimal column travels as text in TypeScript. \<open>Decimal r\<close> is a decimal text
    that denotes the rational \<open>r\<close> (\<open>Decimal 0\<close> is the text \<^verbatim>\<open>"0"\<close>); \<open>NumberText n\<close>
    is the text \<^verbatim>\<open>n.toString()\<close> of a number \<open>n\<close>, which \<^verbatim>\<open>parseFloat\<close> reads back as
    \<open>n\<close>. Quantities are the values of the doubles the request carries.
  \<^item> A route handler is a function from the store and the request to a response and
    the store afterwards.
\<close>

subsection \<open>Data model\<close>

datatype order_status = PLACED | PROCURING | ON_THE_WAY | DELIVERED

subsubsection \<open>JavaScript numbers\<close>

datatype js_number = Finite rat | PosInfinity | NegInfinity | NaN

text \<open>\<open>floor_log2 n\<close> is the position of the leading bit of a positive \<open>n\<close>.\<close>

function floor_log2 :: "int \<Rightarrow> int" where
  "floor_log2 n = (if n < 2 then 0 else 1 + floor_log2 (n div 2))"
  by pat_completeness auto
termination
  by (relation "measure nat") auto

declare floor_log2.simps [simp del]

definition pow2 :: "int \<Rightarrow> rat" where
  "pow2 k = (if 0 \<le> k then 2 ^ nat k else 1 / 2 ^ nat (- k))"

text \<open>For a positive \<open>x\<close>, the exponent \<open>e\<close> with \<open>2 ^ e \<le> x < 2 ^ (e + 1)\<close>.\<close>

definition exponent_of :: "rat \<Rightarrow> int" where
  "exponent_of x =
     (let (p, q) = quotient_of x;
          d = floor_log2 p - floor_log2 q
      in if pow2 d \<le> x then d else d - 1)"

definition round_half_even :: "rat \<Rightarrow> int" where
  "round_half_even r =
     (let f = \<lfloor>r\<rfloor>; d = r - of_int f
      in if d < 1 / 2 then f else if 1 / 2 < d then f + 1 else if even f then f else f + 1)"

text \<open>
  \<open>fl x\<close> is the double nearest to the rational \<open>x\<close>, ties to even: 53 significant
  bits, the least exponent \<open>- 1022\<close> (below it the spacing stays \<open>2 ^ (- 1074)\<close>),
  and an infinity once the rounded value reaches \<open>2 ^ 1024\<close>.
\<close>

definition fl :: "rat \<Rightarrow> js_number" where
  "fl x =
     (if x = 0 then Finite 0
      else let a = \<bar>x\<bar>;
               e = max (exponent_of a) (- 1022);
               ulp = pow2 (e - 52);
               m = round_half_even (a / ulp)
           in if 1023 < e \<or> (e = 1023 \<and> 9007199254740992 \<le> m)
              then (if 0 < x then PosInfinity else NegInfinity)
              else Finite (if 0 < x then of_int m * ulp else - (of_int m * ulp)))"

text \<open>The operators \<^verbatim>\<open>+\<close> and \<^verbatim>\<open>*\<close> on numbers.\<close>

fun js_add :: "js_number \<Rightarrow> js_number \<Rightarrow> js_number" where
  "js_add NaN y = NaN"
| "js_add x NaN = NaN"
| "js_add PosInfinity NegInfinity = NaN"
| "js_add NegInfinity PosInfinity = NaN"
| "js_add PosInfinity y = PosInfinity"
| "js_add x PosInfinity = PosInfinity"
| "js_add NegInfinity y = NegInfinity"
| "js_add x NegInfinity = NegInfinity"
| "js_add (Finite a) (Finite b) = fl (a + b)"

fun js_sign :: "js_number \<Rightarrow> int" where
  "js_sign (Finite a) = (if 0 < a then 1 else if a < 0 then - 1 else 0)"
| "js_sign PosInfinity = 1"
| "js_sign NegInfinity = - 1"
| "js_sign NaN = 0"

fun js_mul :: "js_number \<Rightarrow> js_number \<Rightarrow> js_number" where
  "js_mul NaN y = NaN"
| "js_mul x NaN = NaN"
| "js_mul (Finite a) (Finite b) = fl (a * b)"
| "js_mul x y =
     (if js_sign x * js_sign y = 0 then NaN
      else if 0 < js_sign x * js_sign y then PosInfinity else NegInfinity)"

subsubsection \<open>Rows\<close>

datatype decimal = Decimal rat | NumberText js_number

fun parseFloat :: "decimal \<Rightarrow> js_number" where
  "parseFloat (Decimal r) = fl r"
| "parseFloat (NumberText n) = n"

definition toString :: "js_number \<Rightarrow> decimal" where
  "toString n = NumberText n"

record user =
  user_id :: string
  user_email :: string
  user_password :: string
  user_name :: string
  user_role :: string
  user_status :: string

record product =
  product_id :: string
  product_name :: string
  product_unit :: string

record insert_order =
  io_userId :: "string option"
  io_status :: order_status
  io_total :: decimal

record order =
  order_id :: nat
  order_userId :: "string option"
  order_status :: order_status
  order_total :: decimal

record insert_order_item =
  ii_orderId :: nat
  ii_productId :: string
  ii_quantity :: rat
  ii_price :: decimal

record order_item =
  item_id :: nat
  item_orderId :: nat
  item_productId :: string
  item_quantity :: rat
  item_price :: decimal

record insert_procurement_price =
  ip_productId :: string
  ip_price :: decimal

record procurement_price =
  pp_id :: nat
  pp_productId :: string
  pp_price :: decimal

record insert_delivery =
  idl_orderId :: nat
  idl_deliveredAt :: nat

record delivery =
  delivery_id :: nat
  delivery_orderId :: nat
  delivery_deliveredAt :: nat

record db =
  users :: "user list"
  products :: "product list"
  orders :: "order list"
  orderItems :: "order_item list"
  procurementPrices :: "procurement_price list"
  deliveries :: "delivery list"
  nextId :: nat

text \<open>The joined shapes the storage layer returns.\<close>

record item_with_product =
  iwp_id :: nat
  iwp_orderId :: nat
  iwp_productId :: string
  iwp_quantity :: rat
  iwp_price :: decimal
  iwp_product :: product

record order_with_items =
  owi_id :: nat
  owi_userId :: "string option"
  owi_status :: order_status
  owi_total :: decimal
  owi_items :: "item_with_product list"
  owi_user :: "user option"

record procurement_row =
  pr_productId :: string
  pr_productName :: string
  pr_totalQuantity :: rat
  pr_unit :: string

record agg_data =
  ad_productName :: string
  ad_totalQuantity :: rat
  ad_unit :: string

record earnings =
  totalDeliveries :: nat
  totalEarnings :: nat

subsection \<open>storage.ts\<close>

text \<open>JavaScript truthiness of a nullable string: \<^verbatim>\<open>null\<close>, \<^verbatim>\<open>undefined\<close> and \<^verbatim>\<open>""\<close> are falsy.\<close>

fun truthy :: "string option \<Rightarrow> bool" where
  "truthy None = False"
| "truthy (Some s) = (s \<noteq> [])"

definition getUser :: "db \<Rightarrow> string \<Rightarrow> user option" where
  "getUser d i = find (\<lambda>u. user_id u = i) (users d)"

definition createOrder :: "db \<Rightarrow> insert_order \<Rightarrow> order \<times> db" where
  "createOrder d insertOrder =
     (let row = \<lparr>order_id = nextId d, order_userId = io_userId insertOrder,
                 order_status = io_status insertOrder, order_total = io_total insertOrder\<rparr>
      in (row, d\<lparr>orders := orders d @ [row], nextId := Suc (nextId d)\<rparr>))"

definition getOrderItems :: "db \<Rightarrow> nat \<Rightarrow> item_with_product list" where
  "getOrderItems d orderId =
     concat (map (\<lambda>i. map (\<lambda>p. \<lparr>iwp_id = item_id i, iwp_orderId = item_orderId i,
                                  iwp_productId = item_productId i,
                                  iwp_quantity = item_quantity i, iwp_price = item_price i,
                                  iwp_product = p\<rparr>)
                           (filter (\<lambda>p. item_productId i = product_id p) (products d)))
                 (filter (\<lambda>i. item_orderId i = orderId) (orderItems d)))"

definition getOrder :: "db \<Rightarrow> nat \<Rightarrow> order_with_items option" where
  "getOrder d i =
     (case find (\<lambda>ord. order_id ord = i) (orders d) of
        None \<Rightarrow> None
      | Some ord \<Rightarrow>
          (let items = getOrderItems d i;
               usr = (if truthy (order_userId ord)
                      then (case order_userId ord of Some u \<Rightarrow> getUser d u | None \<Rightarrow> None)
                      else None)
           in Some \<lparr>owi_id = order_id ord, owi_userId = order_userId ord,
                    owi_status = order_status ord, owi_total = order_total ord,
                    owi_items = items, owi_user = usr\<rparr>))"

text \<open>
  \<^verbatim>\<open>update(orders).set({ status }).where(eq(orders.id, id)).returning()\<close>: every row with
  that id is rewritten, the rewritten rows are returned, and the method hands back the
  first of them.
\<close>

definition updateOrderStatus :: "db \<Rightarrow> nat \<Rightarrow> order_status \<Rightarrow> order option \<times> db" where
  "updateOrderStatus d i s =
     (let rows = map (\<lambda>ord. if order_id ord = i then ord\<lparr>order_status := s\<rparr> else ord) (orders d)
      in (find (\<lambda>ord. order_id ord = i) rows, d\<lparr>orders := rows\<rparr>))"

definition createOrderItem :: "db \<Rightarrow> insert_order_item \<Rightarrow> order_item \<times> db" where
  "createOrderItem d insertItem =
     (let row = \<lparr>item_id = nextId d, item_orderId = ii_orderId insertItem,
                 item_productId = ii_productId insertItem,
                 item_quantity = ii_quantity insertItem, item_price = ii_price insertItem\<rparr>
      in (row, d\<lparr>orderItems := orderItems d @ [row], nextId := Suc (nextId d)\<rparr>))"

definition setProcurementPrice :: "db \<Rightarrow> insert_procurement_price \<Rightarrow> procurement_price \<times> db" where
  "setProcurementPrice d insertPrice =
     (let row = \<lparr>pp_id = nextId d, pp_productId = ip_productId insertPrice,
                 pp_price = ip_price insertPrice\<rparr>
      in (row, d\<lparr>procurementPrices := procurementPrices d @ [row], nextId := Suc (nextId d)\<rparr>))"

definition getLatestProcurementPrices :: "db \<Rightarrow> procurement_price list" where
  "getLatestProcurementPrices d = procurementPrices d"

definition createDelivery :: "db \<Rightarrow> insert_delivery \<Rightarrow> delivery \<times> db" where
  "createDelivery d insertDelivery =
     (let row = \<lparr>delivery_id = nextId d, delivery_orderId = idl_orderId insertDelivery,
                 delivery_deliveredAt = idl_deliveredAt insertDelivery\<rparr>
      in (row, d\<lparr>deliveries := deliveries d @ [row], nextId := Suc (nextId d)\<rparr>))"

text \<open>
  The query of \<^verbatim>\<open>getAggregatedProcurementList\<close>: order items joined to their orders and
  to their products, kept when the order's status is PLACED.
\<close>

definition procurement_join :: "db \<Rightarrow> (order_item \<times> order \<times> product) list" where
  "procurement_join d =
     concat (map (\<lambda>i.
       concat (map (\<lambda>ord.
         map (\<lambda>p. (i, ord, p))
             (filter (\<lambda>p. item_productId i = product_id p) (products d)))
         (filter (\<lambda>ord. item_orderId i = order_id ord) (orders d))))
       (orderItems d))"

definition procurement_query :: "db \<Rightarrow> procurement_row list" where
  "procurement_query d =
     map (\<lambda>(i, ord, p). \<lparr>pr_productId = item_productId i, pr_productName = product_name p,
                           pr_totalQuantity = item_quantity i, pr_unit = product_unit p\<rparr>)
         (filter (\<lambda>(i, ord, p). order_status ord = PLACED) (procurement_join d))"

text \<open>
  The \<^verbatim>\<open>Map\<close> of the aggregation keeps its keys in insertion order: an association
  list with one entry per key, a new key appended at the end, an existing entry
  updated in place.
\<close>

definition aggregate_step :: "(string \<times> agg_data) list \<Rightarrow> procurement_row \<Rightarrow> (string \<times> agg_data) list" where
  "aggregate_step aggregation item =
     (case map_of aggregation (pr_productId item) of
        Some existing \<Rightarrow>
          map (\<lambda>(k, data). if k = pr_productId item
                 then (k, data\<lparr>ad_totalQuantity := ad_totalQuantity data + pr_totalQuantity item\<rparr>)
                 else (k, data)) aggregation
      | None \<Rightarrow>
          aggregation @ [(pr_productId item,
             \<lparr>ad_productName = pr_productName item, ad_totalQuantity = pr_totalQuantity item,
              ad_unit = pr_unit item\<rparr>)])"

definition aggregate :: "procurement_row list \<Rightarrow> procurement_row list" where
  "aggregate result =
     map (\<lambda>(productId, data). \<lparr>pr_productId = productId, pr_productName = ad_productName data,
                                pr_totalQuantity = ad_totalQuantity data, pr_unit = ad_unit data\<rparr>)
         (foldl aggregate_step [] result)"

definition getAggregatedProcurementList :: "db \<Rightarrow> procurement_row list" where
  "getAggregatedProcurementList d = aggregate (procurement_query d)"

definition getPartnerEarnings :: "db \<Rightarrow> string option \<Rightarrow> earnings" where
  "getPartnerEarnings d partnerId =
     (let deliveredOrders = filter (\<lambda>ord. order_status ord = DELIVERED) (orders d);
          convenienceFeePerOrder = 40
      in \<lparr>totalDeliveries = length deliveredOrders,
          totalEarnings = length deliveredOrders * convenienceFeePerOrder\<rparr>)"

subsection \<open>routes.ts\<close>

text \<open>
  A request body after \<^verbatim>\<open>express.json()\<close>. An object is the list of its properties,
  one entry per key, read with \<open>map_of\<close>. \<open>JNum r\<close> is a number whose value is \<open>r\<close>.
\<close>

datatype json =
  JNull | JBool bool | JNum rat | JStr string | JArr "json list" | JObj "(string \<times> json) list"

datatype 'a response = Json 'a | Status nat string

record order_line =
  line_productId :: string
  line_quantity :: rat

text \<open>
  \<^verbatim>\<open>createOrderSchema\<close>: an object whose \<^verbatim>\<open>items\<close> is an array of objects with a string
  \<^verbatim>\<open>productId\<close> and a number \<^verbatim>\<open>quantity\<close> that is at least 1. \<open>None\<close> is the exception
  \<^verbatim>\<open>parse\<close> throws; unknown keys are dropped.
\<close>

fun parse_line :: "json \<Rightarrow> order_line option" where
  "parse_line (JObj kvs) =
     (case (map_of kvs ''productId'', map_of kvs ''quantity'') of
        (Some (JStr p), Some (JNum q)) \<Rightarrow>
          (if 1 \<le> q then Some \<lparr>line_productId = p, line_quantity = q\<rparr> else None)
      | _ \<Rightarrow> None)"
| "parse_line _ = None"

fun parse_lines :: "json list \<Rightarrow> order_line list option" where
  "parse_lines [] = Some []"
| "parse_lines (j # js) =
     (case (parse_line j, parse_lines js) of
        (Some l, Some ls) \<Rightarrow> Some (l # ls)
      | _ \<Rightarrow> None)"

fun createOrderSchema_parse :: "json \<Rightarrow> order_line list option" where
  "createOrderSchema_parse (JObj kvs) =
     (case map_of kvs ''items'' of Some (JArr js) \<Rightarrow> parse_lines js | _ \<Rightarrow> None)"
| "createOrderSchema_parse _ = None"

text \<open>\<^verbatim>\<open>new Map(latestPrices.map(p => [p.productId, parseFloat(p.price)]))\<close>: the entries
  are set in the order of the array, a later entry for a key replacing an earlier one.\<close>

definition priceMap_of :: "procurement_price list \<Rightarrow> (string \<rightharpoonup> js_number)" where
  "priceMap_of latestPrices =
     foldl (\<lambda>m p. m(pp_productId p \<mapsto> parseFloat (pp_price p))) Map.empty latestPrices"

text \<open>\<^verbatim>\<open>priceMap.get(item.productId) || 0\<close>: \<^verbatim>\<open>undefined\<close>, \<^verbatim>\<open>0\<close> and \<^verbatim>\<open>NaN\<close> are falsy.\<close>

fun or_zero :: "js_number option \<Rightarrow> js_number" where
  "or_zero None = Finite 0"
| "or_zero (Some v) = (if v = Finite 0 \<or> v = NaN then Finite 0 else v)"

text \<open>
  The loop over the items (lines 135 to 146): the running total (\<open>tot\<close>) and the store.
  \<^verbatim>\<open>item.quantity\<close> is the double \<open>fl (line_quantity item)\<close>, which is
  \<open>Finite (line_quantity item)\<close> for the value of a double.
\<close>

fun create_items :: "(string \<rightharpoonup> js_number) \<Rightarrow> nat \<Rightarrow> order_line list \<Rightarrow> js_number \<Rightarrow> db \<Rightarrow> js_number \<times> db" where
  "create_items priceMap orderId [] tot d = (tot, d)"
| "create_items priceMap orderId (item # items) tot d =
     (let price = or_zero (priceMap (line_productId item));
          itemTotal = js_mul price (fl (line_quantity item));
          tot' = js_add tot itemTotal;
          (row, d') = createOrderItem d
             \<lparr>ii_orderId = orderId, ii_productId = line_productId item,
              ii_quantity = line_quantity item, ii_price = toString price\<rparr>
      in create_items priceMap orderId items tot' d')"

text \<open>
  The body of the handler of \<^verbatim>\<open>POST /api/orders\<close> after validation (lines 121 to 150),
  with the values of its local variables when it responds: \<^verbatim>\<open>total\<close>, \<^verbatim>\<open>order\<close>,
  \<^verbatim>\<open>finalOrder\<close>, and the store.
\<close>

record order_run =
  run_total :: js_number
  run_order :: order
  run_finalOrder :: "order_with_items option"
  run_db :: db

definition place_order :: "db \<Rightarrow> string \<Rightarrow> order_line list \<Rightarrow> order_run" where
  "place_order d userId items =
     (let latestPrices = getLatestProcurementPrices d;
          priceMap = priceMap_of latestPrices;
          total = Finite 40;
          (ord, d1) = createOrder d
             \<lparr>io_userId = Some userId, io_status = PLACED, io_total = Decimal 0\<rparr>;
          (total', d2) = create_items priceMap (order_id ord) items total d1;
          (_, d3) = updateOrderStatus d2 (order_id ord) PLACED;
          finalOrder = getOrder d3 (order_id ord)
      in \<lparr>run_total = total', run_order = ord, run_finalOrder = finalOrder, run_db = d3\<rparr>)"

definition post_orders :: "db \<Rightarrow> string option \<Rightarrow> json \<Rightarrow> order_with_items option response \<times> db" where
  "post_orders d userIdHeader body =
     (case createOrderSchema_parse body of
        None \<Rightarrow> (Status 500 ''Failed to create order'', d)
      | Some items \<Rightarrow>
          (case userIdHeader of
             None \<Rightarrow> (Status 401 ''User ID required'', d)
           | Some userId \<Rightarrow>
               if \<not> truthy (Some userId) then (Status 401 ''User ID required'', d)
               else (let r = place_order d userId items
                     in (Json (run_finalOrder r), run_db r))))"

definition patch_order_status :: "db \<Rightarrow> nat \<Rightarrow> order_status \<Rightarrow> order response \<times> db" where
  "patch_order_status d i status =
     (case updateOrderStatus d i status of
        (None, d') \<Rightarrow> (Status 404 ''Order not found'', d')
      | (Some ord, d') \<Rightarrow> (Json ord, d'))"

definition get_partner_earnings :: "db \<Rightarrow> earnings response" where
  "get_partner_earnings d = Json (getPartnerEarnings d None)"

text \<open>
  \<^verbatim>\<open>POST /api/partner/mark-delivered\<close>. \<^verbatim>\<open>insertDeliverySchema\<close> is declared outside the
  sources at hand: the handler takes the outcome of its \<^verbatim>\<open>parse\<close>, \<open>None\<close> for the
  exception and otherwise the order the body identifies. \<open>now\<close> is \<^verbatim>\<open>new Date()\<close>.
\<close>

definition mark_delivered :: "db \<Rightarrow> nat \<Rightarrow> nat option \<Rightarrow> delivery response \<times> db" where
  "mark_delivered d now deliveryData =
     (case deliveryData of
        None \<Rightarrow> (Status 400 ''Failed to mark as delivered'', d)
      | Some orderId \<Rightarrow>
          (let (dlv, d1) = createDelivery d \<lparr>idl_orderId = orderId, idl_deliveredAt = now\<rparr>;
               (_, d2) = updateOrderStatus d1 orderId DELIVERED
           in (Json dlv, d2)))"

subsection \<open>Well-formed stores\<close>

text \<open>
  Modelled from the spec: the table declarations of \<^verbatim>\<open>@shared/schema\<close>, with their keys
  and generated identifiers, are outside the sources at hand. The data model gives
  every order an identifier of its own; here every order identifier in use lies below
  the counter the next identifier is drawn from.
\<close>

definition fresh_ids :: "db \<Rightarrow> bool" where
  "fresh_ids d = (\<forall>ord \<in> set (orders d). order_id ord < nextId d)"

text \<open>
  Modelled from the spec: the key constraints of \<^verbatim>\<open>@shared/schema\<close> are outside the
  sources at hand. The data model identifies orders and products by \<^verbatim>\<open>id\<close> and states
  the invariant that every order item references an existing product.
\<close>

definition referential_integrity :: "db \<Rightarrow> bool" where
  "referential_integrity d =
     (distinct (map order_id (orders d)) \<and> distinct (map product_id (products d)) \<and>
      (\<forall>i \<in> set (orderItems d). item_productId i \<in> product_id ` set (products d)))"

text \<open>
  Modelled from the spec: the column declarations of \<^verbatim>\<open>@shared/schema\<close> are outside the
  sources at hand. The data model gives the quantity of an order item as an integer;
  a quantity the column holds is a whole number in the range of a 32-bit integer.
\<close>

definition storable_quantity :: "rat \<Rightarrow> bool" where
  "storable_quantity q = (of_int \<lfloor>q\<rfloor> = q \<and> q \<le> 2147483647)"

subsection \<open>Example stores and requests\<close>

text \<open>
  The stores and the request body at which the statements below are instantiated.
  \<open>priced_store\<close>: product A is priced at 10, product B has no price, and one earlier
  order is delivered.
\<close>

definition empty_store :: db where
  "empty_store =
     \<lparr>users = [], products = [], orders = [], orderItems = [], procurementPrices = [],
      deliveries = [], nextId = 0\<rparr>"

definition priced_store :: db where
  "priced_store =
     \<lparr>users = [],
      products = [\<lparr>product_id = ''A'', product_name = ''Onions'', product_unit = ''kg''\<rparr>,
                  \<lparr>product_id = ''B'', product_name = ''Cooking Oil'', product_unit = ''ltr''\<rparr>],
      orders = [\<lparr>order_id = 3, order_userId = Some ''v0'', order_status = DELIVERED,
                 order_total = Decimal 0\<rparr>],
      orderItems = [],
      procurementPrices = [\<lparr>pp_id = 0, pp_productId = ''A'', pp_price = Decimal 10\<rparr>],
      deliveries = [], nextId = 7\<rparr>"

definition fractional_price_store :: db where
  "fractional_price_store =
     \<lparr>users = [], products = [], orders = [], orderItems = [],
      procurementPrices = [\<lparr>pp_id = 0, pp_productId = ''A'', pp_price = Decimal (435 / 100)\<rparr>],
      deliveries = [], nextId = 1\<rparr>"

definition repriced_store :: db where
  "repriced_store =
     \<lparr>users = [], products = [], orders = [], orderItems = [],
      procurementPrices = [\<lparr>pp_id = 0, pp_productId = ''A'', pp_price = Decimal 10\<rparr>,
                           \<lparr>pp_id = 1, pp_productId = ''B'', pp_price = Decimal 5\<rparr>,
                           \<lparr>pp_id = 2, pp_productId = ''A'', pp_price = Decimal 12\<rparr>],
      deliveries = [], nextId = 3\<rparr>"

definition two_orders_store :: db where
  "two_orders_store =
     \<lparr>users = [], products = [],
      orders = [\<lparr>order_id = 1, order_userId = Some ''v1'', order_status = DELIVERED,
                 order_total = Decimal 0\<rparr>,
                \<lparr>order_id = 2, order_userId = Some ''v2'', order_status = PLACED,
                 order_total = Decimal 0\<rparr>],
      orderItems = [], procurementPrices = [], deliveries = [], nextId = 3\<rparr>"

definition demand_store :: db where
  "demand_store =
     \<lparr>users = [],
      products = [\<lparr>product_id = ''A'', product_name = ''Onions'', product_unit = ''kg''\<rparr>,
                  \<lparr>product_id = ''B'', product_name = ''Cooking Oil'', product_unit = ''ltr''\<rparr>],
      orders = [\<lparr>order_id = 1, order_userId = Some ''v1'', order_status = PLACED,
                 order_total = Decimal 0\<rparr>,
                \<lparr>order_id = 2, order_userId = Some ''v2'', order_status = PLACED,
                 order_total = Decimal 0\<rparr>,
                \<lparr>order_id = 3, order_userId = Some ''v1'', order_status = DELIVERED,
                 order_total = Decimal 0\<rparr>],
      orderItems = [\<lparr>item_id = 4, item_orderId = 1, item_productId = ''A'', item_quantity = 2,
                     item_price = Decimal 10\<rparr>,
                    \<lparr>item_id = 5, item_orderId = 2, item_productId = ''A'', item_quantity = 5,
                     item_price = Decimal 10\<rparr>,
                    \<lparr>item_id = 6, item_orderId = 3, item_productId = ''B'', item_quantity = 4,
                     item_price = Decimal 0\<rparr>],
      procurementPrices = [], deliveries = [], nextId = 7\<rparr>"

definition two_lines_body :: json where
  "two_lines_body =
     JObj [(''items'', JArr [JObj [(''productId'', JStr ''A''), (''quantity'', JNum 2)],
                              JObj [(''productId'', JStr ''B''), (''quantity'', JNum 3)]])]"

definition two_lines :: "order_line list" where
  "two_lines = [\<lparr>line_productId = ''A'', line_quantity = 2\<rparr>,
                \<lparr>line_productId = ''B'', line_quantity = 3\<rparr>]"

section \<open>Properties\<close>

subsection \<open>Auxiliary facts about order placement\<close>

lemma create_items_total:
  "fst (create_items pm oid items tot d) =
     foldl js_add tot
       (map (\<lambda>l. js_mul (or_zero (pm (line_productId l))) (fl (line_quantity l))) items)"
  by (induction items arbitrary: tot d)
     (simp_all add: createOrderItem_def Let_def split_def)

lemma create_items_db:
  "snd (create_items pm oid items tot d) =
     d\<lparr>orderItems := orderItems d @
          map (\<lambda>(k, l). \<lparr>item_id = k, item_orderId = oid, item_productId = line_productId l,
                 item_quantity = line_quantity l,
                 item_price = toString (or_zero (pm (line_productId l)))\<rparr>)
              (enumerate (nextId d) items),
       nextId := nextId d + length items\<rparr>"
  by (induction items arbitrary: tot d)
     (simp_all add: createOrderItem_def Let_def split_def)

lemma or_zero_eq:
  "or_zero v = (case v of None \<Rightarrow> Finite 0 | Some x \<Rightarrow> if x = NaN then Finite 0 else x)"
  by (cases v) auto

lemma place_order_total:
  "run_total (place_order d u items) =
     foldl js_add (Finite 40)
       (map (\<lambda>l. js_mul (or_zero (priceMap_of (procurementPrices d) (line_productId l)))
                        (fl (line_quantity l))) items)"
  by (simp add: place_order_def Let_def split_def create_items_total getLatestProcurementPrices_def)

lemma place_order_order:
  "run_order (place_order d u items) =
     \<lparr>order_id = nextId d, order_userId = Some u, order_status = PLACED, order_total = Decimal 0\<rparr>"
  by (simp add: place_order_def Let_def split_def createOrder_def)

lemma place_order_db:
  "run_db (place_order d u items) =
     d\<lparr>orders := map (\<lambda>ord. if order_id ord = nextId d then ord\<lparr>order_status := PLACED\<rparr> else ord)
                   (orders d @ [\<lparr>order_id = nextId d, order_userId = Some u, order_status = PLACED,
                                 order_total = Decimal 0\<rparr>]),
       orderItems := orderItems d @
          map (\<lambda>(k, l). \<lparr>item_id = k, item_orderId = nextId d, item_productId = line_productId l,
                 item_quantity = line_quantity l,
                 item_price = toString (or_zero (priceMap_of (procurementPrices d) (line_productId l)))\<rparr>)
              (enumerate (Suc (nextId d)) items),
       nextId := Suc (nextId d) + length items\<rparr>"
  by (simp add: place_order_def Let_def split_def create_items_db createOrder_def
      updateOrderStatus_def getLatestProcurementPrices_def)

lemma update_other_id:
  "\<forall>ord \<in> set xs. order_id ord \<noteq> i \<Longrightarrow>
     map (\<lambda>ord. if order_id ord = i then ord\<lparr>order_status := s\<rparr> else ord) xs = xs"
  by (induction xs) auto

lemma find_other_id:
  "\<forall>ord \<in> set xs. order_id ord \<noteq> i \<Longrightarrow>
     find (\<lambda>ord. order_id ord = i) (xs @ ys) = find (\<lambda>ord. order_id ord = i) ys"
  by (induction xs) auto

lemma fresh_ids_neq: "fresh_ids d \<Longrightarrow> \<forall>ord \<in> set (orders d). order_id ord \<noteq> nextId d"
  by (auto simp: fresh_ids_def)

lemma place_order_db_fresh:
  assumes "fresh_ids d"
  shows "run_db (place_order d u items) =
     d\<lparr>orders := orders d @ [\<lparr>order_id = nextId d, order_userId = Some u, order_status = PLACED,
                                 order_total = Decimal 0\<rparr>],
       orderItems := orderItems d @
          map (\<lambda>(k, l). \<lparr>item_id = k, item_orderId = nextId d, item_productId = line_productId l,
                 item_quantity = line_quantity l,
                 item_price = toString (or_zero (priceMap_of (procurementPrices d) (line_productId l)))\<rparr>)
              (enumerate (Suc (nextId d)) items),
       nextId := Suc (nextId d) + length items\<rparr>"
  using update_other_id [OF fresh_ids_neq [OF assms]]
  by (simp add: place_order_db)

lemma place_order_finalOrder_fresh:
  assumes "fresh_ids d"
  shows "\<exists>its usr. run_finalOrder (place_order d u items) =
     Some \<lparr>owi_id = nextId d, owi_userId = Some u, owi_status = PLACED, owi_total = Decimal 0,
           owi_items = its, owi_user = usr\<rparr>"
  using update_other_id [OF fresh_ids_neq [OF assms]] find_other_id [OF fresh_ids_neq [OF assms]]
  by (simp add: place_order_def Let_def split_def create_items_db createOrder_def
      updateOrderStatus_def getOrder_def)

lemma place_order_prices:
  "procurementPrices (run_db (place_order d u items)) = procurementPrices d"
  by (simp add: place_order_db)

lemma post_orders_accepts:
  assumes "createOrderSchema_parse body = Some items" and "userId \<noteq> []"
  shows "post_orders d (Some userId) body =
           (Json (run_finalOrder (place_order d userId items)), run_db (place_order d userId items))"
  using assms by (simp add: post_orders_def Let_def)

lemma priceMap_of_last:
  "priceMap_of ps k =
     (case filter (\<lambda>p. pp_productId p = k) ps of
        [] \<Rightarrow> None
      | r # rs \<Rightarrow> Some (parseFloat (pp_price (last (r # rs)))))"
proof (induction ps rule: rev_induct)
  case Nil
  show ?case by (simp add: priceMap_of_def)
next
  case (snoc x xs)
  then show ?case by (auto simp: priceMap_of_def split: list.splits)
qed


lemma map_enumerate_snd: "map (\<lambda>(k, l). f l) (enumerate n xs) = map f xs"
  by (induction xs arbitrary: n) simp_all

lemma place_order_finalOrder_some:
  "run_finalOrder (place_order d u items) \<noteq> None"
proof -
  have "run_finalOrder (place_order d u items) = getOrder (run_db (place_order d u items)) (nextId d)"
    by (simp add: place_order_def Let_def split_def createOrder_def)
  moreover have "\<exists>x \<in> set (orders (run_db (place_order d u items))). order_id x = nextId d"
    by (simp add: place_order_db)
  ultimately show ?thesis
    by (auto simp: getOrder_def Let_def find_None_iff split: option.splits)
qed

lemma floor_log2_bound: "n < 2 ^ Suc k \<Longrightarrow> floor_log2 n \<le> int k"
proof (induction k arbitrary: n)
  case 0
  then show ?case by (simp add: floor_log2.simps)
next
  case (Suc k)
  show ?case
  proof (cases "n < 2")
    case True
    then show ?thesis by (simp add: floor_log2.simps)
  next
    case False
    from Suc.prems have "n div 2 < 2 ^ Suc k" by simp
    then have "floor_log2 (n div 2) \<le> int k" by (rule Suc.IH)
    with False show ?thesis by (subst floor_log2.simps) simp
  qed
qed

lemma floor_log2_nonneg: "0 \<le> floor_log2 n"
proof (induction n rule: floor_log2.induct)
  case (1 n)
  then show ?case by (subst floor_log2.simps) simp
qed

lemma round_half_even_int: "round_half_even (of_int n) = n"
  by (simp add: round_half_even_def)

lemma fl_of_int:
  assumes "0 < n" and "n < 2 ^ 53"
  shows "fl (of_int n) = Finite (of_int n)"
proof -
  define e where "e = exponent_of (of_int n)"
  have "floor_log2 n \<le> 52"
    using floor_log2_bound [of n 52] assms(2) by simp
  with floor_log2_nonneg [of n] have e: "- 1 \<le> e" "e \<le> 52"
    by (simp_all add: e_def exponent_of_def floor_log2.simps [of 1] Let_def)
  define k where "k = nat (52 - e)"
  have ulp: "pow2 (e - 52) = 1 / 2 ^ k"
    using e by (auto simp: pow2_def k_def)
  have "\<bar>of_int n :: rat\<bar> / pow2 (e - 52) = of_int (n * 2 ^ k)"
    using assms(1) by (simp add: ulp)
  then have m: "round_half_even (\<bar>of_int n :: rat\<bar> / pow2 (e - 52)) = n * 2 ^ k"
    by (simp only: round_half_even_int)
  have "max e (- 1022) = e"
    using e by simp
  with assms(1) e m ulp show ?thesis
    by (simp add: fl_def Let_def e_def [symmetric])
qed

lemma fl_storable_quantity:
  assumes "storable_quantity q" and "1 \<le> q"
  shows "fl q = Finite q"
proof -
  from assms(1) have q: "of_int \<lfloor>q\<rfloor> = q" and u: "q \<le> 2147483647"
    unfolding storable_quantity_def by blast+
  from assms(2) have p: "0 < \<lfloor>q\<rfloor>"
    by (simp add: less_floor_iff)
  from u have "\<lfloor>q\<rfloor> \<le> 2147483647"
    by (simp add: floor_le_iff)
  also have "(2147483647 :: int) < 9007199254740992"
    by simp
  finally have "\<lfloor>q\<rfloor> < 2 ^ 53"
    by simp
  with p have "fl (of_int \<lfloor>q\<rfloor>) = Finite (of_int \<lfloor>q\<rfloor>)"
    by (rule fl_of_int)
  then show ?thesis
    by (simp only: q)
qed

text \<open>
  The rounding at values that are not doubles: the prices 4.35 and 0.1, and the integer
  \<open>2 ^ 53 + 1\<close>, which a price text can denote and no double can hold.
\<close>

lemma fl_examples:
  "fl (435 / 100) = Finite (2448832297382707 / 562949953421312)
   \<and> fl (1 / 10) = Finite (3602879701896397 / 36028797018963968)
   \<and> fl 9007199254740993 = Finite 9007199254740992
   \<and> toString (parseFloat (Decimal 9007199254740993)) = NumberText (Finite 9007199254740992)"
  by code_simp

lemma parse_line_quantity:
  "parse_line j = Some l \<Longrightarrow> 1 \<le> line_quantity l"
  by (cases j) (auto split: option.splits json.splits if_splits)

lemma parse_lines_quantity:
  "parse_lines js = Some ls \<Longrightarrow> \<forall>l \<in> set ls. 1 \<le> line_quantity l"
proof (induction js arbitrary: ls)
  case Nil
  then show ?case by simp
next
  case (Cons j js)
  from Cons.prems obtain l ls' where "parse_line j = Some l" "parse_lines js = Some ls'" "ls = l # ls'"
    by (auto split: option.splits)
  with Cons.IH [of ls'] parse_line_quantity [of j l] show ?case
    by simp
qed

lemma createOrderSchema_quantity:
  "createOrderSchema_parse body = Some items \<Longrightarrow> \<forall>l \<in> set items. 1 \<le> line_quantity l"
  by (cases body) (auto split: option.splits json.splits dest: parse_lines_quantity)

lemma fresh_ids_place_order:
  "fresh_ids d \<Longrightarrow> fresh_ids (run_db (place_order d u items))"
  by (auto simp: fresh_ids_def place_order_db_fresh [unfolded fresh_ids_def])

subsection \<open>Auxiliary facts about status updates\<close>

lemma find_SomeD: "find P xs = Some x \<Longrightarrow> x \<in> set xs \<and> P x"
  by (induction xs) (auto split: if_splits)

lemma update_keeps_ids:
  "order_id ` set (map (\<lambda>x. if order_id x = i then x\<lparr>order_status := s\<rparr> else x) xs) =
     order_id ` set xs"
  by (induction xs) simp_all

lemma update_sets_status:
  assumes "x \<in> set (map (\<lambda>y. if order_id y = i then y\<lparr>order_status := s\<rparr> else y) xs)"
    and "order_id x = i"
  shows "order_status x = s"
proof -
  from assms(1) have "x \<in> (\<lambda>y. if order_id y = i then y\<lparr>order_status := s\<rparr> else y) ` set xs"
    by (simp only: set_map)
  then obtain y where y: "x = (if order_id y = i then y\<lparr>order_status := s\<rparr> else y)"
    by (rule imageE)
  show ?thesis
  proof (cases "order_id y = i")
    case True
    with y show ?thesis by simp
  next
    case False
    with y assms(2) show ?thesis by simp
  qed
qed

lemma updateOrderStatus_db:
  "snd (updateOrderStatus d i s) =
     d\<lparr>orders := map (\<lambda>x. if order_id x = i then x\<lparr>order_status := s\<rparr> else x) (orders d)\<rparr>"
  by (simp only: updateOrderStatus_def Let_def snd_conv)

lemma updateOrderStatus_found:
  assumes "i \<in> order_id ` set (orders d)"
  shows "\<exists>ord. fst (updateOrderStatus d i s) = Some ord \<and> order_id ord = i \<and> order_status ord = s"
proof -
  let ?rows = "map (\<lambda>x. if order_id x = i then x\<lparr>order_status := s\<rparr> else x) (orders d)"
  from assms have "i \<in> order_id ` set ?rows"
    by (simp only: update_keeps_ids)
  then have "find (\<lambda>x. order_id x = i) ?rows \<noteq> None"
    unfolding find_None_iff by blast
  then obtain ord where f: "find (\<lambda>x. order_id x = i) ?rows = Some ord"
    by blast
  from find_SomeD [OF f] have ord: "ord \<in> set ?rows" "order_id ord = i"
    by blast+
  then have "order_status ord = s"
    by (rule update_sets_status)
  with f ord(2) show ?thesis
    by (simp only: updateOrderStatus_def Let_def fst_conv) blast
qed

lemma updateOrderStatus_missing:
  assumes "i \<notin> order_id ` set (orders d)"
  shows "updateOrderStatus d i s = (None, d)"
proof -
  from assms have n: "\<forall>x \<in> set (orders d). order_id x \<noteq> i" by blast
  then have "find (\<lambda>x. order_id x = i) (orders d) = None"
    unfolding find_None_iff by blast
  with update_other_id [OF n, of s] show ?thesis
    by (simp add: updateOrderStatus_def)
qed

subsection \<open>Auxiliary facts about the aggregation\<close>

lemma map_of_update_entries:
  "map_of (map (\<lambda>(k, data). if k = k0 then (k, f data) else (k, data)) m) k =
     (if k = k0 then map_option f (map_of m k) else map_of m k)"
  by (induction m) auto

lemma aggregate_step_keys:
  "map fst (aggregate_step m r) =
     (if pr_productId r \<in> fst ` set m then map fst m else map fst m @ [pr_productId r])"
proof (cases "map_of m (pr_productId r)")
  case None
  then have "pr_productId r \<notin> fst ` set m"
    by (simp add: map_of_eq_None_iff)
  with None show ?thesis
    by (simp add: aggregate_step_def)
next
  case (Some existing)
  then have "pr_productId r \<in> fst ` set m"
    by (metis map_of_eq_None_iff option.distinct(1))
  moreover have "map fst (map (\<lambda>(k, data). if k = k0 then (k, f data) else (k, data)) m) = map fst m"
    for k0 :: string and f :: "agg_data \<Rightarrow> agg_data"
    by (induction m) auto
  ultimately show ?thesis
    using Some by (simp add: aggregate_step_def)
qed

lemma aggregate_step_quantity:
  "(case map_of (aggregate_step m r) k of None \<Rightarrow> 0 | Some data \<Rightarrow> ad_totalQuantity data) =
     (case map_of m k of None \<Rightarrow> 0 | Some data \<Rightarrow> ad_totalQuantity data)
       + (if pr_productId r = k then pr_totalQuantity r else 0)"
  by (cases "map_of m (pr_productId r)")
     (auto simp: aggregate_step_def map_of_update_entries map_add_def split: option.splits)

lemma foldl_aggregate_distinct:
  "distinct (map fst m) \<Longrightarrow> distinct (map fst (foldl aggregate_step m rows))"
  by (induction rows arbitrary: m) (simp_all add: aggregate_step_keys)

lemma foldl_aggregate_keys:
  "fst ` set (foldl aggregate_step m rows) = fst ` set m \<union> pr_productId ` set rows"
proof (induction rows arbitrary: m)
  case Nil
  show ?case by simp
next
  case (Cons r rows)
  have "fst ` set (aggregate_step m r) = insert (pr_productId r) (fst ` set m)"
    using arg_cong [OF aggregate_step_keys [of m r], of set] by (auto simp: image_iff)
  then show ?case
    using Cons.IH [of "aggregate_step m r"] by simp
qed

lemma foldl_aggregate_quantity:
  "(case map_of (foldl aggregate_step m rows) k of None \<Rightarrow> 0 | Some data \<Rightarrow> ad_totalQuantity data) =
     (case map_of m k of None \<Rightarrow> 0 | Some data \<Rightarrow> ad_totalQuantity data)
       + (\<Sum>r\<leftarrow>filter (\<lambda>r. pr_productId r = k) rows. pr_totalQuantity r)"
  by (induction rows arbitrary: m) (simp_all add: aggregate_step_quantity)

lemma aggregate_ids:
  "map pr_productId (aggregate result) = map fst (foldl aggregate_step [] result)"
  by (simp add: aggregate_def split_def comp_def)

lemma aggregate_distinct: "distinct (map pr_productId (aggregate result))"
  using foldl_aggregate_distinct [of "[]" result] by (simp add: aggregate_ids)

lemma aggregate_keys: "pr_productId ` set (aggregate result) = pr_productId ` set result"
  using foldl_aggregate_keys [of "[]" result] arg_cong [OF aggregate_ids [of result], of set]
  by simp

lemma aggregate_quantity:
  assumes "row \<in> set (aggregate result)"
  shows "pr_totalQuantity row =
           (\<Sum>r\<leftarrow>filter (\<lambda>r. pr_productId r = pr_productId row) result. pr_totalQuantity r)"
proof -
  from assms obtain k data where kd: "(k, data) \<in> set (foldl aggregate_step [] result)"
    and row: "pr_productId row = k" "pr_totalQuantity row = ad_totalQuantity data"
    by (auto simp: aggregate_def)
  have "distinct (map fst (foldl aggregate_step [] result))"
    using foldl_aggregate_distinct [of "[]" result] by simp
  with kd have "map_of (foldl aggregate_step [] result) k = Some data"
    by simp
  then show ?thesis
    using foldl_aggregate_quantity [of "[]" result k] row by simp
qed

lemma filter_key_unique:
  assumes "distinct (map f xs)"
  shows "filter (\<lambda>x. k = f x) xs = [] \<or> (\<exists>x. filter (\<lambda>x. k = f x) xs = [x])"
  using assms
proof (induction xs)
  case Nil
  show ?case by simp
next
  case (Cons x xs)
  show ?case
  proof (cases "k = f x")
    case True
    with Cons.prems have "\<forall>y \<in> set xs. k \<noteq> f y" by auto
    then have "filter (\<lambda>x. k = f x) xs = []" by (simp add: filter_empty_conv)
    with True show ?thesis by simp
  next
    case False
    with Cons show ?thesis by simp
  qed
qed

lemma join_item:
  assumes os: "distinct (map order_id os)" and ps: "distinct (map product_id ps)"
    and ref: "item_productId i \<in> product_id ` set ps"
  shows "map (\<lambda>(i, ord, p). (item_productId i, item_quantity i))
           (filter (\<lambda>(i, ord, p). order_status ord = PLACED)
              (concat (map (\<lambda>ord. map (\<lambda>p. (i, ord, p))
                                    (filter (\<lambda>p. item_productId i = product_id p) ps))
                           (filter (\<lambda>ord. item_orderId i = order_id ord) os)))) =
         (if \<exists>ord \<in> set os. order_id ord = item_orderId i \<and> order_status ord = PLACED
          then [(item_productId i, item_quantity i)] else [])"
proof -
  have "filter (\<lambda>p. item_productId i = product_id p) ps \<noteq> []"
    using ref by (auto simp: filter_empty_conv)
  then obtain p where p: "filter (\<lambda>p. item_productId i = product_id p) ps = [p]"
    using filter_key_unique [OF ps, of "item_productId i"] by auto
  from filter_key_unique [OF os, of "item_orderId i"] show ?thesis
  proof
    assume e: "filter (\<lambda>ord. item_orderId i = order_id ord) os = []"
    then have "\<forall>ord \<in> set os. item_orderId i \<noteq> order_id ord"
      by (simp add: filter_empty_conv)
    then have "\<not> (\<exists>ord \<in> set os. order_id ord = item_orderId i \<and> order_status ord = PLACED)"
      by auto
    with e show ?thesis by simp
  next
    assume "\<exists>x. filter (\<lambda>ord. item_orderId i = order_id ord) os = [x]"
    then obtain x where x: "filter (\<lambda>ord. item_orderId i = order_id ord) os = [x]" ..
    have "set (filter (\<lambda>ord. item_orderId i = order_id ord) os) = {x}"
      by (simp add: x)
    then have "\<And>ord. (ord \<in> set os \<and> item_orderId i = order_id ord) = (ord = x)"
      by auto
    then have "(\<exists>ord \<in> set os. order_id ord = item_orderId i \<and> order_status ord = PLACED)
                 \<longleftrightarrow> order_status x = PLACED"
      by metis
    then show ?thesis by (simp add: x p)
  qed
qed

lemma concat_map_if: "concat (map (\<lambda>x. if P x then [h x] else []) xs) = map h (filter P xs)"
  by (induction xs) simp_all

lemma procurement_query_pairs:
  assumes "referential_integrity d"
  shows "map (\<lambda>r. (pr_productId r, pr_totalQuantity r)) (procurement_query d) =
         map (\<lambda>i. (item_productId i, item_quantity i))
             (filter (\<lambda>i. \<exists>ord \<in> set (orders d). order_id ord = item_orderId i \<and> order_status ord = PLACED)
                     (orderItems d))"
proof -
  have "map (\<lambda>r. (pr_productId r, pr_totalQuantity r)) (procurement_query d) =
        map (\<lambda>(i, ord, p). (item_productId i, item_quantity i))
            (filter (\<lambda>(i, ord, p). order_status ord = PLACED) (procurement_join d))"
    by (simp add: procurement_query_def split_def comp_def)
  also have "\<dots> = concat (map (\<lambda>i.
        map (\<lambda>(i, ord, p). (item_productId i, item_quantity i))
           (filter (\<lambda>(i, ord, p). order_status ord = PLACED)
              (concat (map (\<lambda>ord. map (\<lambda>p. (i, ord, p))
                                    (filter (\<lambda>p. item_productId i = product_id p) (products d)))
                           (filter (\<lambda>ord. item_orderId i = order_id ord) (orders d))))))
        (orderItems d))"
    by (simp add: procurement_join_def filter_concat map_concat comp_def)
  also have "\<dots> = concat (map (\<lambda>i.
        if \<exists>ord \<in> set (orders d). order_id ord = item_orderId i \<and> order_status ord = PLACED
        then [(item_productId i, item_quantity i)] else [])
        (orderItems d))"
    using assms
    by (intro arg_cong [where f = concat] map_cong refl join_item)
       (simp_all add: referential_integrity_def)
  finally show ?thesis
    by (simp add: concat_map_if)
qed

lemma sum_by_key:
  assumes "map (\<lambda>x. (kf x, qf x)) xs = map (\<lambda>y. (kg y, qg y)) ys"
  shows "(\<Sum>x\<leftarrow>filter (\<lambda>x. kf x = k) xs. (qf x :: rat)) = (\<Sum>y\<leftarrow>filter (\<lambda>y. kg y = k) ys. qg y)"
proof -
  have "(\<Sum>x\<leftarrow>filter (\<lambda>x. kf x = k) xs. qf x) =
          sum_list (map snd (filter (\<lambda>p. fst p = k) (map (\<lambda>x. (kf x, qf x)) xs)))"
    by (simp add: filter_map comp_def)
  moreover have "(\<Sum>y\<leftarrow>filter (\<lambda>y. kg y = k) ys. qg y) =
          sum_list (map snd (filter (\<lambda>p. fst p = k) (map (\<lambda>y. (kg y, qg y)) ys)))"
    by (simp add: filter_map comp_def)
  ultimately show ?thesis
    using assms by simp
qed

lemma procurement_query_items:
  assumes "referential_integrity d"
  shows "pr_productId ` set (procurement_query d) =
           item_productId ` {i \<in> set (orderItems d).
              \<exists>ord \<in> set (orders d). order_id ord = item_orderId i \<and> order_status ord = PLACED}"
    and "(\<Sum>r\<leftarrow>filter (\<lambda>r. pr_productId r = k) (procurement_query d). pr_totalQuantity r) =
           (\<Sum>i\<leftarrow>filter (\<lambda>i. item_productId i = k \<and>
                               (\<exists>ord \<in> set (orders d). order_id ord = item_orderId i \<and>
                                                       order_status ord = PLACED))
                         (orderItems d). item_quantity i)"
proof -
  note pairs = procurement_query_pairs [OF assms]
  have "pr_productId ` set (procurement_query d) =
          fst ` set (map (\<lambda>r. (pr_productId r, pr_totalQuantity r)) (procurement_query d))"
    by (simp add: image_image)
  also have "\<dots> = item_productId ` {i \<in> set (orderItems d).
              \<exists>ord \<in> set (orders d). order_id ord = item_orderId i \<and> order_status ord = PLACED}"
    unfolding pairs by (simp add: image_image)
  finally show "pr_productId ` set (procurement_query d) =
           item_productId ` {i \<in> set (orderItems d).
              \<exists>ord \<in> set (orders d). order_id ord = item_orderId i \<and> order_status ord = PLACED}" .
  have "(\<Sum>r\<leftarrow>filter (\<lambda>r. pr_productId r = k) (procurement_query d). pr_totalQuantity r) =
            (\<Sum>i\<leftarrow>filter (\<lambda>i. item_productId i = k)
                 (filter (\<lambda>i. \<exists>ord \<in> set (orders d). order_id ord = item_orderId i \<and>
                                                       order_status ord = PLACED)
                    (orderItems d)). item_quantity i)"
    by (rule sum_by_key [OF pairs])
  then show "(\<Sum>r\<leftarrow>filter (\<lambda>r. pr_productId r = k) (procurement_query d). pr_totalQuantity r) =
           (\<Sum>i\<leftarrow>filter (\<lambda>i. item_productId i = k \<and>
                               (\<exists>ord \<in> set (orders d). order_id ord = item_orderId i \<and>
                                                       order_status ord = PLACED))
                         (orderItems d). item_quantity i)"
    by (simp add: conj_commute)
qed

subsection \<open>Order total and order items\<close>

text \<open>
  Claim C1, as stated, at a price that is not a double: the price text \<^verbatim>\<open>"4.35"\<close> and the
  quantity 100 give the total 474.99999999999994 (the double
  \<open>8356288371097599 / 2 ^ 44\<close>), not \<open>40 + 4.35 * 100 = 475\<close>.
\<close>

theorem order_total_exact_counterexample:
  "run_total (place_order fractional_price_store ''v1''
       [\<lparr>line_productId = ''A'', line_quantity = 100\<rparr>]) =
     Finite (8356288371097599 / 17592186044416)
   \<and> Finite (8356288371097599 / 17592186044416) \<noteq> Finite (40 + 435 / 100 * 100)"
proof -
  have "run_total (place_order fractional_price_store ''v1''
       [\<lparr>line_productId = ''A'', line_quantity = 100\<rparr>]) =
     Finite (8356288371097599 / 17592186044416)"
    unfolding place_order_total by code_simp
  then show ?thesis
    by simp
qed

text \<open>
  Claim C1, amended. A request that passes validation with whole-number quantities
  (at least 1, at most \<open>2 ^ 31 - 1\<close>) and carries a user id is answered with the order
  read back, whatever the price table holds. The total the handler computes is the
  sum in double arithmetic, from 40 and from left to right, of the products in double
  arithmetic of price and quantity, where the price of a line is the entry of the
  price map built from the price table at order time (the double nearest to the text
  of the price), and 0 when the map has no entry for the product or the entry is not
  a number. The handler appends exactly one order item per line, in the order of the
  request, each carrying the text of that price and the identifier of the order row
  it has just created.
\<close>

theorem order_total_and_items:
  assumes "createOrderSchema_parse body = Some items" and "userId \<noteq> []"
    and "\<forall>l \<in> set items. storable_quantity (line_quantity l)"
  shows "post_orders d (Some userId) body =
           (Json (run_finalOrder (place_order d userId items)), run_db (place_order d userId items))
       \<and> run_total (place_order d userId items) =
           foldl js_add (Finite 40)
             (map (\<lambda>l. js_mul (case priceMap_of (procurementPrices d) (line_productId l) of
                                  None \<Rightarrow> Finite 0
                                | Some price \<Rightarrow> if price = NaN then Finite 0 else price)
                              (Finite (line_quantity l)))
                  items)
       \<and> orderItems (run_db (place_order d userId items)) =
           orderItems d @
           map (\<lambda>(k, l). \<lparr>item_id = k,
                           item_orderId = order_id (run_order (place_order d userId items)),
                           item_productId = line_productId l,
                           item_quantity = line_quantity l,
                           item_price =
                             toString (case priceMap_of (procurementPrices d) (line_productId l) of
                                         None \<Rightarrow> Finite 0
                                       | Some price \<Rightarrow> if price = NaN then Finite 0 else price)\<rparr>)
               (enumerate (Suc (nextId d)) items)
       \<and> last (orders (run_db (place_order d userId items))) = run_order (place_order d userId items)
       \<and> order_id (run_order (place_order d userId items)) = nextId d
       \<and> (\<forall>l \<in> set items. 1 \<le> line_quantity l)"
proof -
  note ge = createOrderSchema_quantity [OF assms(1)]
  have "map (\<lambda>l. js_mul (or_zero (priceMap_of (procurementPrices d) (line_productId l)))
                        (fl (line_quantity l))) items =
        map (\<lambda>l. js_mul (or_zero (priceMap_of (procurementPrices d) (line_productId l)))
                        (Finite (line_quantity l))) items"
    using assms(3) ge by (intro map_cong refl) (simp add: fl_storable_quantity)
  then have "run_total (place_order d userId items) =
           foldl js_add (Finite 40)
             (map (\<lambda>l. js_mul (or_zero (priceMap_of (procurementPrices d) (line_productId l)))
                              (Finite (line_quantity l)))
                  items)"
    by (simp only: place_order_total)
  then have total: "run_total (place_order d userId items) =
           foldl js_add (Finite 40)
             (map (\<lambda>l. js_mul (case priceMap_of (procurementPrices d) (line_productId l) of
                                  None \<Rightarrow> Finite 0
                                | Some price \<Rightarrow> if price = NaN then Finite 0 else price)
                              (Finite (line_quantity l)))
                  items)"
    by (simp only: or_zero_eq)
  have lst: "last (orders (run_db (place_order d userId items))) = run_order (place_order d userId items)"
    by (simp add: place_order_db place_order_order)
  have rows: "orderItems (run_db (place_order d userId items)) =
           orderItems d @
           map (\<lambda>(k, l). \<lparr>item_id = k,
                           item_orderId = order_id (run_order (place_order d userId items)),
                           item_productId = line_productId l,
                           item_quantity = line_quantity l,
                           item_price =
                             toString (case priceMap_of (procurementPrices d) (line_productId l) of
                                         None \<Rightarrow> Finite 0
                                       | Some price \<Rightarrow> if price = NaN then Finite 0 else price)\<rparr>)
               (enumerate (Suc (nextId d)) items)"
    by (simp add: place_order_db place_order_order or_zero_eq)
  have oid: "order_id (run_order (place_order d userId items)) = nextId d"
    by (simp add: place_order_order)
  show ?thesis
    by (intro conjI post_orders_accepts [OF assms(1,2)] total rows lst oid ge)
qed

theorem order_total_and_items_witness:
  "createOrderSchema_parse two_lines_body = Some two_lines
   \<and> ''v1'' \<noteq> []
   \<and> list_all (\<lambda>l. storable_quantity (line_quantity l)) two_lines
   \<and> run_total (place_order priced_store ''v1'' two_lines) = Finite 60
   \<and> orderItems (run_db (place_order priced_store ''v1'' two_lines)) =
       [\<lparr>item_id = 8, item_orderId = 7, item_productId = ''A'', item_quantity = 2,
         item_price = NumberText (Finite 10)\<rparr>,
        \<lparr>item_id = 9, item_orderId = 7, item_productId = ''B'', item_quantity = 3,
         item_price = NumberText (Finite 0)\<rparr>]"
proof -
  have p: "createOrderSchema_parse two_lines_body = Some two_lines"
    by (simp add: two_lines_body_def two_lines_def)
  have u: "''v1'' \<noteq> []" by simp
  have s: "list_all (\<lambda>l. storable_quantity (line_quantity l)) two_lines"
    by (simp add: two_lines_def storable_quantity_def)
  note t = order_total_and_items [OF p u s [unfolded list_all_iff], of priced_store]
  have ten: "fl 10 = Finite 10"
    by code_simp
  have sum: "js_add (js_add (Finite 40) (js_mul (Finite 10) (Finite 2))) (js_mul (Finite 0) (Finite 3)) =
      Finite 60"
    by code_simp
  have total: "run_total (place_order priced_store ''v1'' two_lines) = Finite 60"
    using t [THEN conjunct2, THEN conjunct1] sum
    by (simp add: priced_store_def two_lines_def priceMap_of_def ten)
  have rows: "orderItems (run_db (place_order priced_store ''v1'' two_lines)) =
       [\<lparr>item_id = 8, item_orderId = 7, item_productId = ''A'', item_quantity = 2,
         item_price = NumberText (Finite 10)\<rparr>,
        \<lparr>item_id = 9, item_orderId = 7, item_productId = ''B'', item_quantity = 3,
         item_price = NumberText (Finite 0)\<rparr>]"
    using t [THEN conjunct2, THEN conjunct2, THEN conjunct1]
      t [THEN conjunct2, THEN conjunct2, THEN conjunct2, THEN conjunct2, THEN conjunct1]
    by (simp add: priced_store_def two_lines_def priceMap_of_def ten toString_def)
  show ?thesis
    by (intro conjI p u s total rows)
qed

text \<open>
  Claim C4. When an order is created in a store whose order identifiers are fresh, the
  order row is appended with the placeholder total \<^verbatim>\<open>"0"\<close>, status PLACED and the
  user id of the request; the handler never writes the computed total, so the row in
  the store and the order read back for the response both carry the placeholder,
  whatever the items and prices are. The order items appended reflect the lines of the
  request.
\<close>

theorem order_total_placeholder_persisted:
  assumes "createOrderSchema_parse body = Some items" and "userId \<noteq> []" and "fresh_ids d"
  shows "post_orders d (Some userId) body =
           (Json (run_finalOrder (place_order d userId items)), run_db (place_order d userId items))
       \<and> orders (run_db (place_order d userId items)) =
           orders d @ [\<lparr>order_id = nextId d, order_userId = Some userId, order_status = PLACED,
                         order_total = Decimal 0\<rparr>]
       \<and> (\<exists>its usr. run_finalOrder (place_order d userId items) =
             Some \<lparr>owi_id = nextId d, owi_userId = Some userId, owi_status = PLACED,
                   owi_total = Decimal 0, owi_items = its, owi_user = usr\<rparr>)
       \<and> map (\<lambda>i. (item_orderId i, item_productId i, item_quantity i))
             (drop (length (orderItems d)) (orderItems (run_db (place_order d userId items)))) =
           map (\<lambda>l. (nextId d, line_productId l, line_quantity l)) items"
proof -
  have "map (\<lambda>i. (item_orderId i, item_productId i, item_quantity i))
             (drop (length (orderItems d)) (orderItems (run_db (place_order d userId items)))) =
           map (\<lambda>l. (nextId d, line_productId l, line_quantity l)) items"
    using map_enumerate_snd [of "\<lambda>l. (nextId d, line_productId l, line_quantity l)" "Suc (nextId d)" items]
    by (simp add: place_order_db split_def comp_def)
  then show ?thesis
    using post_orders_accepts [OF assms(1,2)] place_order_finalOrder_fresh [OF assms(3)]
    by (simp add: place_order_db_fresh [OF assms(3)])
qed

theorem order_total_placeholder_persisted_witness:
  "createOrderSchema_parse two_lines_body = Some two_lines
   \<and> ''v1'' \<noteq> []
   \<and> fresh_ids priced_store
   \<and> run_total (place_order priced_store ''v1'' two_lines) = Finite 60
   \<and> orders (run_db (place_order priced_store ''v1'' two_lines)) =
       [\<lparr>order_id = 3, order_userId = Some ''v0'', order_status = DELIVERED, order_total = Decimal 0\<rparr>,
        \<lparr>order_id = 7, order_userId = Some ''v1'', order_status = PLACED, order_total = Decimal 0\<rparr>]"
proof -
  have p: "createOrderSchema_parse two_lines_body = Some two_lines"
    by (simp add: two_lines_body_def two_lines_def)
  have u: "''v1'' \<noteq> []" by simp
  have f: "fresh_ids priced_store"
    by (simp add: fresh_ids_def priced_store_def)
  have total: "run_total (place_order priced_store ''v1'' two_lines) = Finite 60"
    unfolding place_order_total by code_simp
  have rows: "orders (run_db (place_order priced_store ''v1'' two_lines)) =
       [\<lparr>order_id = 3, order_userId = Some ''v0'', order_status = DELIVERED, order_total = Decimal 0\<rparr>,
        \<lparr>order_id = 7, order_userId = Some ''v1'', order_status = PLACED, order_total = Decimal 0\<rparr>]"
    using order_total_placeholder_persisted [OF p u f, THEN conjunct2, THEN conjunct1]
    by (simp add: priced_store_def)
  show ?thesis
    by (intro conjI p u f total rows)
qed

text \<open>
  Claim C5. \<^verbatim>\<open>getLatestProcurementPrices\<close> returns the whole price table, to which
  setting a price appends a row and from which no row is ever dropped. The price map
  built from it holds, for a product, the price of the last row of the table for that
  product, and that is the unit price the order total is computed with and the order
  item is stored with.
\<close>

theorem latest_prices_last_write_wins:
  "getLatestProcurementPrices d = procurementPrices d
   \<and> getLatestProcurementPrices (snd (setProcurementPrice d insertPrice)) =
       getLatestProcurementPrices d @ [fst (setProcurementPrice d insertPrice)]
   \<and> priceMap_of (getLatestProcurementPrices d) productId =
       (case filter (\<lambda>p. pp_productId p = productId) (procurementPrices d) of
          [] \<Rightarrow> None
        | r # rs \<Rightarrow> Some (parseFloat (pp_price (last (r # rs)))))
   \<and> run_total (place_order d userId [\<lparr>line_productId = productId, line_quantity = q\<rparr>]) =
       js_add (Finite 40)
         (js_mul (or_zero (case filter (\<lambda>p. pp_productId p = productId) (procurementPrices d) of
                             [] \<Rightarrow> None
                           | r # rs \<Rightarrow> Some (parseFloat (pp_price (last (r # rs))))))
                 (fl q))
   \<and> map item_price (drop (length (orderItems d))
         (orderItems (run_db (place_order d userId [\<lparr>line_productId = productId, line_quantity = q\<rparr>])))) =
       [toString (or_zero (case filter (\<lambda>p. pp_productId p = productId) (procurementPrices d) of
                             [] \<Rightarrow> None
                           | r # rs \<Rightarrow> Some (parseFloat (pp_price (last (r # rs))))))]"
proof -
  have "getLatestProcurementPrices (snd (setProcurementPrice d insertPrice)) =
       getLatestProcurementPrices d @ [fst (setProcurementPrice d insertPrice)]"
    by (simp add: getLatestProcurementPrices_def setProcurementPrice_def Let_def)
  then show ?thesis
    by (simp add: getLatestProcurementPrices_def place_order_total place_order_db
        priceMap_of_last [symmetric])
qed

theorem latest_prices_last_write_wins_witness:
  "getLatestProcurementPrices repriced_store =
     [\<lparr>pp_id = 0, pp_productId = ''A'', pp_price = Decimal 10\<rparr>,
      \<lparr>pp_id = 1, pp_productId = ''B'', pp_price = Decimal 5\<rparr>,
      \<lparr>pp_id = 2, pp_productId = ''A'', pp_price = Decimal 12\<rparr>]
   \<and> priceMap_of (getLatestProcurementPrices repriced_store) ''A'' = Some (Finite 12)
   \<and> run_total (place_order repriced_store ''v1'' [\<lparr>line_productId = ''A'', line_quantity = 2\<rparr>]) =
       Finite 64"
proof -
  note t = latest_prices_last_write_wins [of repriced_store _ "''A''" "''v1''" 2]
  have twelve: "fl 12 = Finite 12"
    by code_simp
  have sum: "js_add (Finite 40) (js_mul (Finite 12) (fl 2)) = Finite 64"
    by code_simp
  have rows: "getLatestProcurementPrices repriced_store =
     [\<lparr>pp_id = 0, pp_productId = ''A'', pp_price = Decimal 10\<rparr>,
      \<lparr>pp_id = 1, pp_productId = ''B'', pp_price = Decimal 5\<rparr>,
      \<lparr>pp_id = 2, pp_productId = ''A'', pp_price = Decimal 12\<rparr>]"
    using t [THEN conjunct1] by (simp add: repriced_store_def)
  have entry: "priceMap_of (getLatestProcurementPrices repriced_store) ''A'' = Some (Finite 12)"
    using t [THEN conjunct2, THEN conjunct2, THEN conjunct1]
    by (simp add: repriced_store_def twelve)
  have total: "run_total (place_order repriced_store ''v1'' [\<lparr>line_productId = ''A'', line_quantity = 2\<rparr>]) =
       Finite 64"
    using t [THEN conjunct2, THEN conjunct2, THEN conjunct2, THEN conjunct1] sum
    by (simp add: repriced_store_def twelve)
  show ?thesis
    by (intro conjI rows entry total)
qed

text \<open>
  Claim C9. Repeating the order placement with the same items, on the store the first
  placement leaves behind, computes the same total; the total depends on the store
  only through the price table; and the placement leaves the price table, and the
  price map built from it, as they were.
\<close>

theorem order_total_repeatable:
  "run_total (place_order (run_db (place_order d userId items)) userId' items) =
     run_total (place_order d userId items)
   \<and> procurementPrices (run_db (place_order d userId items)) = procurementPrices d
   \<and> priceMap_of (getLatestProcurementPrices (run_db (place_order d userId items))) =
       priceMap_of (getLatestProcurementPrices d)
   \<and> run_total (place_order (d\<lparr>procurementPrices := ps\<rparr>) userId items) =
       run_total (place_order (d'\<lparr>procurementPrices := ps\<rparr>) userId' items)"
  by (simp add: place_order_total place_order_prices getLatestProcurementPrices_def)

text \<open>
  Claim C10. A body whose \<^verbatim>\<open>items\<close> is the empty array passes validation. With a user
  id the request is answered with the order read back, not with an error: one order
  row is appended with status PLACED, no order item is created, and the computed total
  is 40.
\<close>

theorem empty_order_accepted:
  assumes "map_of kvs ''items'' = Some (JArr [])" and "userId \<noteq> []"
  shows "createOrderSchema_parse (JObj kvs) = Some []
       \<and> post_orders d (Some userId) (JObj kvs) =
           (Json (run_finalOrder (place_order d userId [])), run_db (place_order d userId []))
       \<and> run_finalOrder (place_order d userId []) \<noteq> None
       \<and> length (orders (run_db (place_order d userId []))) = Suc (length (orders d))
       \<and> last (orders (run_db (place_order d userId []))) =
           \<lparr>order_id = nextId d, order_userId = Some userId, order_status = PLACED,
            order_total = Decimal 0\<rparr>
       \<and> orderItems (run_db (place_order d userId [])) = orderItems d
       \<and> run_total (place_order d userId []) = Finite 40"
proof -
  have p: "createOrderSchema_parse (JObj kvs) = Some []"
    using assms(1) by simp
  show ?thesis
    using p post_orders_accepts [OF p assms(2)] place_order_finalOrder_some [of d userId "[]"]
    by (simp add: place_order_total place_order_db)
qed

theorem empty_order_accepted_witness:
  "map_of [(''items'', JArr [])] ''items'' = Some (JArr [])
   \<and> ''v1'' \<noteq> []
   \<and> post_orders empty_store (Some ''v1'') (JObj [(''items'', JArr [])]) =
       (Json (Some \<lparr>owi_id = 0, owi_userId = Some ''v1'', owi_status = PLACED, owi_total = Decimal 0,
                    owi_items = [], owi_user = None\<rparr>),
        \<lparr>users = [], products = [],
         orders = [\<lparr>order_id = 0, order_userId = Some ''v1'', order_status = PLACED,
                    order_total = Decimal 0\<rparr>],
         orderItems = [], procurementPrices = [], deliveries = [], nextId = 1\<rparr>)"
proof -
  have m: "map_of [(''items'', JArr [])] ''items'' = Some (JArr [])" by simp
  have u: "''v1'' \<noteq> []" by simp
  have r: "post_orders empty_store (Some ''v1'') (JObj [(''items'', JArr [])]) =
       (Json (Some \<lparr>owi_id = 0, owi_userId = Some ''v1'', owi_status = PLACED, owi_total = Decimal 0,
                    owi_items = [], owi_user = None\<rparr>),
        \<lparr>users = [], products = [],
         orders = [\<lparr>order_id = 0, order_userId = Some ''v1'', order_status = PLACED,
                    order_total = Decimal 0\<rparr>],
         orderItems = [], procurementPrices = [], deliveries = [], nextId = 1\<rparr>)"
    using empty_order_accepted [OF m u, of empty_store, THEN conjunct2, THEN conjunct1]
    by (simp add: empty_store_def place_order_def createOrder_def updateOrderStatus_def getOrder_def
        Let_def getOrderItems_def getUser_def getLatestProcurementPrices_def priceMap_of_def)
  show ?thesis
    by (intro conjI m u r)
qed

subsection \<open>Order status\<close>

text \<open>
  Claim C6. \<^verbatim>\<open>PATCH /api/orders/:id/status\<close>: when an order with the identifier exists,
  whatever its current status and whichever of the four status values is supplied, the
  response is the updated order, every order row with that identifier carries the
  supplied status afterwards and nothing else of the store changes; no ordering of
  the statuses is checked. When no order has the identifier the response is 404 and
  the store is unchanged.
\<close>

theorem patch_status_unguarded:
  "(i \<in> order_id ` set (orders d) \<longrightarrow>
      (\<exists>ord. fst (patch_order_status d i s) = Json ord \<and> order_id ord = i \<and> order_status ord = s)
      \<and> snd (patch_order_status d i s) =
           d\<lparr>orders := map (\<lambda>x. if order_id x = i then x\<lparr>order_status := s\<rparr> else x) (orders d)\<rparr>
      \<and> i \<in> order_id ` set (orders (snd (patch_order_status d i s)))
      \<and> (\<forall>x \<in> set (orders (snd (patch_order_status d i s))). order_id x = i \<longrightarrow> order_status x = s))
   \<and> (i \<notin> order_id ` set (orders d) \<longrightarrow>
      patch_order_status d i s = (Status 404 ''Order not found'', d))"
proof (intro conjI impI)
  have db: "snd (patch_order_status d i s) =
           d\<lparr>orders := map (\<lambda>x. if order_id x = i then x\<lparr>order_status := s\<rparr> else x) (orders d)\<rparr>"
    using updateOrderStatus_db [of d i s]
    by (cases "updateOrderStatus d i s"; cases "fst (updateOrderStatus d i s)")
       (simp_all add: patch_order_status_def)
  {
    assume ex: "i \<in> order_id ` set (orders d)"
    from updateOrderStatus_found [OF ex, of s]
    show "\<exists>ord. fst (patch_order_status d i s) = Json ord \<and> order_id ord = i \<and> order_status ord = s"
      by (cases "updateOrderStatus d i s") (auto simp: patch_order_status_def)
    show "snd (patch_order_status d i s) =
           d\<lparr>orders := map (\<lambda>x. if order_id x = i then x\<lparr>order_status := s\<rparr> else x) (orders d)\<rparr>"
      by (rule db)
    from ex show "i \<in> order_id ` set (orders (snd (patch_order_status d i s)))"
      by (simp add: db update_keeps_ids del: set_map)
    have "orders (snd (patch_order_status d i s)) =
            map (\<lambda>x. if order_id x = i then x\<lparr>order_status := s\<rparr> else x) (orders d)"
      by (simp add: db)
    then show "\<forall>x \<in> set (orders (snd (patch_order_status d i s))). order_id x = i \<longrightarrow> order_status x = s"
      using update_sets_status [of _ i s "orders d"] by (simp only:) blast
  }
  assume "i \<notin> order_id ` set (orders d)"
  then show "patch_order_status d i s = (Status 404 ''Order not found'', d)"
    by (simp add: patch_order_status_def updateOrderStatus_missing)
qed

theorem patch_status_unguarded_witness:
  "1 \<in> order_id ` set (orders two_orders_store)
   \<and> patch_order_status two_orders_store 1 PLACED =
       (Json \<lparr>order_id = 1, order_userId = Some ''v1'', order_status = PLACED, order_total = Decimal 0\<rparr>,
        two_orders_store
          \<lparr>orders := [\<lparr>order_id = 1, order_userId = Some ''v1'', order_status = PLACED,
                        order_total = Decimal 0\<rparr>,
                       \<lparr>order_id = 2, order_userId = Some ''v2'', order_status = PLACED,
                        order_total = Decimal 0\<rparr>]\<rparr>)
   \<and> 9 \<notin> order_id ` set (orders two_orders_store)
   \<and> patch_order_status two_orders_store 9 ON_THE_WAY = (Status 404 ''Order not found'', two_orders_store)"
proof -
  have a: "1 \<in> order_id ` set (orders two_orders_store)"
    by (simp add: two_orders_store_def)
  have b: "9 \<notin> order_id ` set (orders two_orders_store)"
    by (simp add: two_orders_store_def)
  note t = patch_status_unguarded [of 1 two_orders_store PLACED, THEN conjunct1, THEN mp, OF a]
  have db: "snd (patch_order_status two_orders_store 1 PLACED) =
        two_orders_store
          \<lparr>orders := [\<lparr>order_id = 1, order_userId = Some ''v1'', order_status = PLACED,
                        order_total = Decimal 0\<rparr>,
                       \<lparr>order_id = 2, order_userId = Some ''v2'', order_status = PLACED,
                        order_total = Decimal 0\<rparr>]\<rparr>"
    using t [THEN conjunct2, THEN conjunct1] by (simp add: two_orders_store_def)
  have "fst (patch_order_status two_orders_store 1 PLACED) =
       Json \<lparr>order_id = 1, order_userId = Some ''v1'', order_status = PLACED, order_total = Decimal 0\<rparr>"
    by (simp add: patch_order_status_def updateOrderStatus_def two_orders_store_def)
  with db have c: "patch_order_status two_orders_store 1 PLACED =
       (Json \<lparr>order_id = 1, order_userId = Some ''v1'', order_status = PLACED, order_total = Decimal 0\<rparr>,
        two_orders_store
          \<lparr>orders := [\<lparr>order_id = 1, order_userId = Some ''v1'', order_status = PLACED,
                        order_total = Decimal 0\<rparr>,
                       \<lparr>order_id = 2, order_userId = Some ''v2'', order_status = PLACED,
                        order_total = Decimal 0\<rparr>]\<rparr>)"
    by (simp only: prod_eq_iff fst_conv snd_conv simp_thms)
  note n = patch_status_unguarded [of 9 two_orders_store ON_THE_WAY, THEN conjunct2, THEN mp, OF b]
  show ?thesis
    by (intro conjI a b c n)
qed

text \<open>
  Claim C7. \<^verbatim>\<open>POST /api/partner/mark-delivered\<close> with a body that identifies an existing
  order appends a delivery row for that order with the time of the request, and sets
  the status of the order to DELIVERED.
\<close>

theorem mark_delivered_effects:
  assumes "orderId \<in> order_id ` set (orders d)"
  shows "mark_delivered d now (Some orderId) =
           (Json \<lparr>delivery_id = nextId d, delivery_orderId = orderId, delivery_deliveredAt = now\<rparr>,
            d\<lparr>orders := map (\<lambda>x. if order_id x = orderId then x\<lparr>order_status := DELIVERED\<rparr> else x)
                           (orders d),
              deliveries := deliveries d @
                 [\<lparr>delivery_id = nextId d, delivery_orderId = orderId, delivery_deliveredAt = now\<rparr>],
              nextId := Suc (nextId d)\<rparr>)
       \<and> orderId \<in> order_id ` set (orders (snd (mark_delivered d now (Some orderId))))
       \<and> (\<forall>x \<in> set (orders (snd (mark_delivered d now (Some orderId)))).
             order_id x = orderId \<longrightarrow> order_status x = DELIVERED)"
proof -
  have eq: "mark_delivered d now (Some orderId) =
           (Json \<lparr>delivery_id = nextId d, delivery_orderId = orderId, delivery_deliveredAt = now\<rparr>,
            d\<lparr>orders := map (\<lambda>x. if order_id x = orderId then x\<lparr>order_status := DELIVERED\<rparr> else x)
                           (orders d),
              deliveries := deliveries d @
                 [\<lparr>delivery_id = nextId d, delivery_orderId = orderId, delivery_deliveredAt = now\<rparr>],
              nextId := Suc (nextId d)\<rparr>)"
    apply (simp only: mark_delivered_def createDelivery_def updateOrderStatus_def Let_def
        option.case prod.case)
    apply simp
    done
  have rows: "orders (snd (mark_delivered d now (Some orderId))) =
      map (\<lambda>x. if order_id x = orderId then x\<lparr>order_status := DELIVERED\<rparr> else x) (orders d)"
    by (simp add: eq)
  from assms have "orderId \<in> order_id ` set (orders (snd (mark_delivered d now (Some orderId))))"
    by (simp only: rows update_keeps_ids)
  moreover have "\<forall>x \<in> set (orders (snd (mark_delivered d now (Some orderId)))).
             order_id x = orderId \<longrightarrow> order_status x = DELIVERED"
    using update_sets_status [of _ orderId DELIVERED "orders d"] by (simp only: rows) blast
  ultimately show ?thesis
    using eq by blast
qed

theorem mark_delivered_effects_witness:
  "2 \<in> order_id ` set (orders two_orders_store)
   \<and> mark_delivered two_orders_store 1700 (Some 2) =
       (Json \<lparr>delivery_id = 3, delivery_orderId = 2, delivery_deliveredAt = 1700\<rparr>,
        \<lparr>users = [], products = [],
         orders = [\<lparr>order_id = 1, order_userId = Some ''v1'', order_status = DELIVERED,
                    order_total = Decimal 0\<rparr>,
                   \<lparr>order_id = 2, order_userId = Some ''v2'', order_status = DELIVERED,
                    order_total = Decimal 0\<rparr>],
         orderItems = [], procurementPrices = [],
         deliveries = [\<lparr>delivery_id = 3, delivery_orderId = 2, delivery_deliveredAt = 1700\<rparr>],
         nextId = 4\<rparr>)"
proof -
  have a: "2 \<in> order_id ` set (orders two_orders_store)"
    by (simp add: two_orders_store_def)
  have e: "mark_delivered two_orders_store 1700 (Some 2) =
       (Json \<lparr>delivery_id = 3, delivery_orderId = 2, delivery_deliveredAt = 1700\<rparr>,
        \<lparr>users = [], products = [],
         orders = [\<lparr>order_id = 1, order_userId = Some ''v1'', order_status = DELIVERED,
                    order_total = Decimal 0\<rparr>,
                   \<lparr>order_id = 2, order_userId = Some ''v2'', order_status = DELIVERED,
                    order_total = Decimal 0\<rparr>],
         orderItems = [], procurementPrices = [],
         deliveries = [\<lparr>delivery_id = 3, delivery_orderId = 2, delivery_deliveredAt = 1700\<rparr>],
         nextId = 4\<rparr>)"
    using mark_delivered_effects [OF a, of 1700, THEN conjunct1]
    by (simp add: two_orders_store_def)
  show ?thesis
    by (intro conjI a e)
qed

subsection \<open>Aggregated procurement list\<close>

text \<open>
  Claim C2. The procurement list has no two rows with the same product id; its product
  ids are those of the rows of the query (order items joined to their orders and
  products, the order in status PLACED); the quantity of a row is the sum of the
  quantities of the query rows for its product. In a store that satisfies the key
  constraints of the data model the query rows are the order items whose order has
  status PLACED: the list has exactly one row for each product id of such an item, with
  the sum of the quantities of those items, and a product with no such item is absent.
\<close>

theorem procurement_list_aggregates:
  "distinct (map pr_productId (getAggregatedProcurementList d))
   \<and> pr_productId ` set (getAggregatedProcurementList d) = pr_productId ` set (procurement_query d)
   \<and> (\<forall>row \<in> set (getAggregatedProcurementList d).
         pr_totalQuantity row =
           (\<Sum>r\<leftarrow>filter (\<lambda>r. pr_productId r = pr_productId row) (procurement_query d).
               pr_totalQuantity r))
   \<and> (referential_integrity d \<longrightarrow>
         pr_productId ` set (getAggregatedProcurementList d) =
           item_productId ` {i \<in> set (orderItems d).
              \<exists>ord \<in> set (orders d). order_id ord = item_orderId i \<and> order_status ord = PLACED}
       \<and> (\<forall>row \<in> set (getAggregatedProcurementList d).
             pr_totalQuantity row =
               (\<Sum>i\<leftarrow>filter (\<lambda>i. item_productId i = pr_productId row \<and>
                               (\<exists>ord \<in> set (orders d). order_id ord = item_orderId i \<and>
                                                       order_status ord = PLACED))
                             (orderItems d). item_quantity i)))"
proof -
  have d: "distinct (map pr_productId (getAggregatedProcurementList d))"
    by (simp only: getAggregatedProcurementList_def aggregate_distinct)
  have k: "pr_productId ` set (getAggregatedProcurementList d) = pr_productId ` set (procurement_query d)"
    by (simp only: getAggregatedProcurementList_def aggregate_keys)
  have q: "\<forall>row \<in> set (getAggregatedProcurementList d).
         pr_totalQuantity row =
           (\<Sum>r\<leftarrow>filter (\<lambda>r. pr_productId r = pr_productId row) (procurement_query d).
               pr_totalQuantity r)"
    unfolding getAggregatedProcurementList_def by (intro ballI aggregate_quantity)
  have "pr_productId ` set (getAggregatedProcurementList d) =
           item_productId ` {i \<in> set (orderItems d).
              \<exists>ord \<in> set (orders d). order_id ord = item_orderId i \<and> order_status ord = PLACED}
       \<and> (\<forall>row \<in> set (getAggregatedProcurementList d).
             pr_totalQuantity row =
               (\<Sum>i\<leftarrow>filter (\<lambda>i. item_productId i = pr_productId row \<and>
                               (\<exists>ord \<in> set (orders d). order_id ord = item_orderId i \<and>
                                                       order_status ord = PLACED))
                             (orderItems d). item_quantity i))"
    if r: "referential_integrity d"
  proof (intro conjI ballI)
    show "pr_productId ` set (getAggregatedProcurementList d) =
           item_productId ` {i \<in> set (orderItems d).
              \<exists>ord \<in> set (orders d). order_id ord = item_orderId i \<and> order_status ord = PLACED}"
      using k procurement_query_items(1) [OF r] by (rule trans)
  next
    fix row
    assume "row \<in> set (getAggregatedProcurementList d)"
    with q have "pr_totalQuantity row =
           (\<Sum>r\<leftarrow>filter (\<lambda>r. pr_productId r = pr_productId row) (procurement_query d).
               pr_totalQuantity r)"
      by (rule bspec)
    then show "pr_totalQuantity row =
               (\<Sum>i\<leftarrow>filter (\<lambda>i. item_productId i = pr_productId row \<and>
                               (\<exists>ord \<in> set (orders d). order_id ord = item_orderId i \<and>
                                                       order_status ord = PLACED))
                             (orderItems d). item_quantity i)"
      using procurement_query_items(2) [OF r, of "pr_productId row"] by (rule trans)
  qed
  with d k q show ?thesis
    by (intro conjI impI) blast+
qed

theorem procurement_list_aggregates_witness:
  "referential_integrity demand_store
   \<and> getAggregatedProcurementList demand_store =
       [\<lparr>pr_productId = ''A'', pr_productName = ''Onions'', pr_totalQuantity = 7, pr_unit = ''kg''\<rparr>]
   \<and> pr_productId ` set (getAggregatedProcurementList demand_store) =
       item_productId ` {i \<in> set (orderItems demand_store).
          \<exists>ord \<in> set (orders demand_store). order_id ord = item_orderId i \<and> order_status ord = PLACED}"
proof -
  have h: "referential_integrity demand_store"
    by (simp add: referential_integrity_def demand_store_def)
  have g: "getAggregatedProcurementList demand_store =
       [\<lparr>pr_productId = ''A'', pr_productName = ''Onions'', pr_totalQuantity = 7, pr_unit = ''kg''\<rparr>]"
    by (simp add: getAggregatedProcurementList_def aggregate_def aggregate_step_def
        procurement_query_def procurement_join_def demand_store_def)
  note t = procurement_list_aggregates [THEN conjunct2, THEN conjunct2, THEN conjunct2,
      THEN mp, OF h, THEN conjunct1]
  show ?thesis
    by (intro conjI h g t)
qed

subsection \<open>Partner earnings\<close>

text \<open>
  Claim C3. \<^verbatim>\<open>totalDeliveries\<close> is the number of order rows whose status is DELIVERED,
  \<^verbatim>\<open>totalEarnings\<close> is exactly 40 times that number (0 when there is none), and
  neither depends on the order items or on the totals and users of the orders.
\<close>

theorem partner_earnings_flat_fee:
  "totalDeliveries (getPartnerEarnings d p) =
     card {k. k < length (orders d) \<and> order_status (orders d ! k) = DELIVERED}
   \<and> totalEarnings (getPartnerEarnings d p) = 40 * totalDeliveries (getPartnerEarnings d p)
   \<and> getPartnerEarnings (d\<lparr>orderItems := its\<rparr>) p = getPartnerEarnings d p
   \<and> getPartnerEarnings
        (d\<lparr>orders := map (\<lambda>ord. ord\<lparr>order_total := t ord, order_userId := u ord\<rparr>) (orders d)\<rparr>) p
       = getPartnerEarnings d p"
  by (simp add: getPartnerEarnings_def length_filter_conv_card filter_map comp_def)

text \<open>
  Claim C8. The earnings summary is the same for every \<^verbatim>\<open>partnerId\<close> argument, absent
  (\<open>None\<close>) or any string: the parameter is not used. The route, which passes none,
  answers with that same summary.
\<close>

theorem partner_earnings_ignores_partner:
  "getPartnerEarnings d p = getPartnerEarnings d q
   \<and> get_partner_earnings d = Json (getPartnerEarnings d p)"
  by (simp add: getPartnerEarnings_def get_partner_earnings_def)

end
